theory Spec2Isabelle
  imports Main
begin

section \<open>Strings as the handler uses them\<close>

text \<open>
  Message bodies, citations and names are \<open>string\<close>s of ASCII characters. The JavaScript
  built-ins the source calls (\<open>toUpperCase\<close>, \<open>toLowerCase\<close>, \<open>trim\<close>, the regular
  expression classes \<open>\w\<close> and \<open>\S\<close>) are given on ASCII: the case maps move the 26 letters
  and leave every other character as it is, white space is tab, line feed, vertical tab,
  form feed, carriage return and space. Letters and spaces beyond ASCII are outside the
  model.
\<close>

definition lower_letters :: string where
  "lower_letters = ''abcdefghijklmnopqrstuvwxyz''"

definition upper_letters :: string where
  "upper_letters = ''ABCDEFGHIJKLMNOPQRSTUVWXYZ''"

definition toUpperChar :: "char \<Rightarrow> char" where
  "toUpperChar c = (case map_of (zip lower_letters upper_letters) c of Some u \<Rightarrow> u | None \<Rightarrow> c)"

definition toLowerChar :: "char \<Rightarrow> char" where
  "toLowerChar c = (case map_of (zip upper_letters lower_letters) c of Some l \<Rightarrow> l | None \<Rightarrow> c)"

definition toUpperCase :: "string \<Rightarrow> string" where
  "toUpperCase s = map toUpperChar s"

definition toLowerCase :: "string \<Rightarrow> string" where
  "toLowerCase s = map toLowerChar s"

text \<open>The class \<open>\s\<close> (and what \<open>trim\<close> removes), and its complement \<open>\S\<close>.\<close>

definition is_space :: "char \<Rightarrow> bool" where
  "is_space c = (c \<in> set [CHR 0x09, CHR 0x0A, CHR 0x0B, CHR 0x0C, CHR 0x0D, CHR '' ''])"

definition non_space :: "char \<Rightarrow> bool" where
  "non_space c = (\<not> is_space c)"

text \<open>The class \<open>\w\<close>: letters, digits and the underscore.\<close>

definition is_word :: "char \<Rightarrow> bool" where
  "is_word c = (c \<in> set (lower_letters @ upper_letters @ ''0123456789_''))"

definition trim :: "string \<Rightarrow> string" where
  "trim s = rev (dropWhile is_space (rev (dropWhile is_space s)))"

text \<open>A string \<open>trim\<close> leaves alone: it neither starts nor ends with white space.\<close>

definition trimmed :: "string \<Rightarrow> bool" where
  "trimmed s = (s = [] \<or> (\<not> is_space (hd s) \<and> \<not> is_space (last s)))"

section \<open>cleanupName\<close>

text \<open>
  The callback of the replacement,
  \<^verbatim>\<open>function(txt) { return txt.charAt(0).toUpperCase() + txt.substr(1).toLowerCase(); }\<close>
\<close>

definition capitalize :: "string \<Rightarrow> string" where
  "capitalize txt = toUpperCase (take 1 txt) @ toLowerCase (drop 1 txt)"

text \<open>
  \<^verbatim>\<open>name.replace(/\w\S*/g, f)\<close>: scanning from the left, a match starts at the first word
  character and runs up to the next white space (or the end); it is replaced by \<open>f\<close> of
  the match, and the scan goes on behind it. Characters outside a match are copied.
\<close>

function replace_words :: "(string \<Rightarrow> string) \<Rightarrow> string \<Rightarrow> string" where
  "replace_words f [] = []"
| "replace_words f (c # cs) =
     (if is_word c
      then f (c # takeWhile non_space cs) @ replace_words f (dropWhile non_space cs)
      else c # replace_words f cs)"
  by pat_completeness auto
termination
  by (relation "measure (\<lambda>(f, s). length s)") (auto simp: length_dropWhile_le less_Suc_eq_le)

definition cleanupName :: "string \<Rightarrow> string" where
  "cleanupName name = replace_words capitalize (trim name)"

section \<open>Requests, sessions and the database\<close>

text \<open>A calendar date, as the column \<open>date\<close> of a case holds it.\<close>

record caldate =
  year :: nat
  month :: nat
  day :: nat

text \<open>
  A row of the cases table, with the columns the handler reads (\<open>case_id\<close> is the
  column \<open>id\<close>).
\<close>

record caseRecord =
  case_id :: string
  defendant :: string
  date :: caldate
  time :: string
  room :: string

text \<open>
  \<open>req.session\<close>: the two flags are unset (\<open>undefined\<close>, hence false) in a fresh session,
  and so are \<open>match\<close> and \<open>citationId\<close>.
\<close>

record session =
  askedReminder :: bool
  askedQueued :: bool
  match :: "caseRecord option"
  citationId :: "string option"

definition fresh_session :: session where
  "fresh_session = \<lparr>askedReminder = False, askedQueued = False, match = None, citationId = None\<rparr>"

text \<open>\<open>req.body\<close> of a message posted by Twilio.\<close>

record request =
  From :: string
  Body :: string

text \<open>
  The argument of \<open>db.addReminder\<close> (\<open>originalCase\<close> is the JSON text of the case: the
  case itself here) and of \<open>db.addQueued\<close>.
\<close>

record reminder =
  caseId :: string
  phone :: string
  originalCase :: caseRecord

record queued =
  queued_citationId :: "string option"
  queued_phone :: string

datatype dberror = DbError string

text \<open>
  What a request does that can be seen from outside, in the order it does it: the
  calls of the database module, \<open>res.send(twiml.toString())\<close> with the messages the
  TwiML response holds at that moment, \<open>next(err)\<close>, the reply of status 500 of the
  error-handling middleware, and the two errors JavaScript raises here: the TypeError
  of reading a property of \<open>undefined\<close> or \<open>null\<close>, and the ReferenceError of a name
  that is not in scope. The first \<open>Send\<close> or \<open>Send500\<close> of a turn is the reply; a later
  \<open>Send\<close> is an attempt on a response that has been sent.
\<close>

datatype event =
    FindAskedQueued string
  | AddReminder reminder
  | AddQueued queued
  | FindCitation string
  | Send "string list"
  | Send500
  | Next dberror
  | TypeError
  | ReferenceError

text \<open>
  The three database calls that take a callback the handler acts in, and the six orders
  in which the database may answer them.
\<close>

datatype dbcall = AskedQueuedCall | AddQueuedCall | CitationCall

datatype answer_order = QAC | QCA | AQC | ACQ | CQA | CAQ

fun calls_in_order :: "answer_order \<Rightarrow> dbcall list" where
  "calls_in_order QAC = [AskedQueuedCall, AddQueuedCall, CitationCall]"
| "calls_in_order QCA = [AskedQueuedCall, CitationCall, AddQueuedCall]"
| "calls_in_order AQC = [AddQueuedCall, AskedQueuedCall, CitationCall]"
| "calls_in_order ACQ = [AddQueuedCall, CitationCall, AskedQueuedCall]"
| "calls_in_order CQA = [CitationCall, AskedQueuedCall, AddQueuedCall]"
| "calls_in_order CAQ = [CitationCall, AddQueuedCall, AskedQueuedCall]"

text \<open>
  The module \<open>./db\<close>, \<open>process.env\<close> and the library moment are the environment of a
  request. The database calls its callbacks with \<open>(err, data)\<close>, as the callbacks of the
  handler expect: \<open>findAskedQueued\<close> answers with an error or with rows, \<open>addQueued\<close>
  with an error or without, \<open>findCitation\<close> with its \<open>results\<close> (\<open>None\<close> when they are
  undefined; the handler ignores its error). The rows \<open>findAskedQueued\<close> returns are
  handed to the same code as \<open>req.session.match\<close>, so they are case rows.
  \<open>moment_ddd_MMM_Do d\<close> is \<^verbatim>\<open>moment(d).format('ddd, MMM Do')\<close> and \<open>moment_h_mm_A s\<close> is
  \<^verbatim>\<open>moment(s).format("h:mm A")\<close>.
\<close>

record env =
  COURT_PUBLIC_URL :: string
  QUEUE_TTL_DAYS :: string
  findAskedQueued :: "string \<Rightarrow> dberror + caseRecord list"
  addQueued :: "queued \<Rightarrow> dberror option"
  findCitation :: "string \<Rightarrow> caseRecord list option"
  answers :: answer_order
  moment_ddd_MMM_Do :: "caldate \<Rightarrow> string"
  moment_h_mm_A :: "string \<Rightarrow> string"

section \<open>The handler of POST /sms\<close>

text \<open>
  The state a request's code works on: the session object, the TwiML response under
  construction (its messages, in order), the events so far, and the session that went
  out with the response: \<open>express.cookieSession\<close> writes the session into the cookie
  when the headers of the response are sent, so \<open>stored\<close> is \<open>None\<close> until the first
  reply and holds the session of that moment from then on.
\<close>

record hstate =
  sess :: session
  twiml :: "string list"
  trace :: "event list"
  stored :: "session option"

definition emit :: "event \<Rightarrow> hstate \<Rightarrow> hstate" where
  "emit e st = st\<lparr>trace := trace st @ [e]\<rparr>"

text \<open>A call of \<open>res.send\<close>: the event, and the session goes out if the headers do.\<close>

definition respond :: "event \<Rightarrow> hstate \<Rightarrow> hstate" where
  "respond e st =
     (emit e st)\<lparr>stored := (case stored st of None \<Rightarrow> Some (sess st) | Some c \<Rightarrow> Some c)\<rparr>"

text \<open>\<open>twiml.sms(m)\<close> and \<open>res.send(twiml.toString())\<close>.\<close>

definition sms :: "string \<Rightarrow> hstate \<Rightarrow> hstate" where
  "sms m st = st\<lparr>twiml := twiml st @ [m]\<rparr>"

definition send :: "hstate \<Rightarrow> hstate" where
  "send st = respond (Send (twiml st)) st"

text \<open>
  The error-handling middleware at the end of the file, which Express runs on
  \<open>next(err)\<close>: it replies with status 500 unless the headers have been sent.
\<close>

definition error_middleware :: "hstate \<Rightarrow> hstate" where
  "error_middleware st = (if stored st = None then respond Send500 st else st)"

definition next_err :: "dberror \<Rightarrow> hstate \<Rightarrow> hstate" where
  "next_err err st = error_middleware (emit (Next err) st)"

definition affirmative :: "string \<Rightarrow> bool" where
  "affirmative text = (text = ''YES'' \<or> text = ''YEA'' \<or> text = ''YUP'' \<or> text = ''Y'')"

definition negative :: "string \<Rightarrow> bool" where
  "negative text = (text = ''NO'' \<or> text = ''N'')"

subsection \<open>The messages\<close>

definition reminder_yes_1 :: string where
  "reminder_yes_1 = ''(1/2) Sounds good. We will attempt to text you a courtesy reminder the day before your case. Note that case schedules frequently change.''"

definition reminder_yes_2 :: "env \<Rightarrow> string" where
  "reminder_yes_2 env = ''(2/2) You should always confirm your case date and time by going to '' @ COURT_PUBLIC_URL env"

definition opt_out :: "env \<Rightarrow> string" where
  "opt_out env = ''OK. You can always go to '' @ COURT_PUBLIC_URL env @ '' for more information about your case and contact information.''"

definition queue_yes :: "env \<Rightarrow> string" where
  "queue_yes env = ''OK. We will keep checking for up to '' @ QUEUE_TTL_DAYS env @ '' days. You can always go to '' @ COURT_PUBLIC_URL env @ '' for more information about your case and contact information.''"

definition not_found_1 :: string where
  "not_found_1 = ''(1/2) Could not find a case with that number. It can take several days for a case to appear in our system.''"

definition not_found_2 :: "env \<Rightarrow> string" where
  "not_found_2 env = ''(2/2) Would you like us to keep checking for the next '' @ QUEUE_TTL_DAYS env @ '' days and text you if we find it? (reply YES or NO)''"

definition format_error :: string where
  "format_error = ''Couldn'' @ [CHR 0x27] @ ''t find your case. Case identifier should be 6 to 25 numbers and/or letters in length.''"

definition reminder_prompt :: string where
  "reminder_prompt = ''. Would you like a courtesy reminder the day before? (reply YES or NO)''"

definition found_message :: "env \<Rightarrow> caseRecord \<Rightarrow> string" where
  "found_message env m =
     (let name = cleanupName (defendant m);
          date = moment_ddd_MMM_Do env (date m)
      in ''Found a case for '' @ name @ '' scheduled on '' @ date @ '' at ''
           @ moment_h_mm_A env (''1980-01-01 '' @ time m) @ '', at '' @ room m
           @ reminder_prompt)"

subsection \<open>handleReminderResponse\<close>

text \<open>
  The answer to the reminder question about \<open>match\<close>. The affirmative branch reads
  \<open>match.id\<close>, a TypeError (\<open>None\<close>) when \<open>match\<close> is undefined. A text that is neither
  affirmative nor negative takes no branch.
\<close>

definition handleReminderResponse ::
  "env \<Rightarrow> request \<Rightarrow> string \<Rightarrow> caseRecord option \<Rightarrow> hstate \<Rightarrow> hstate option" where
  "handleReminderResponse env req text mtch st =
     (if affirmative text then
        (case mtch of
           None \<Rightarrow> None
         | Some m \<Rightarrow>
             let st = emit (AddReminder \<lparr>caseId = case_id m, phone = From req,
                                          originalCase = m\<rparr>) st;
                 st = sms reminder_yes_1 st;
                 st = sms (reminder_yes_2 env) st;
                 st = st\<lparr>sess := (sess st)\<lparr>askedReminder := False\<rparr>\<rparr>
             in Some (send st))
      else if negative text then
        let st = sms (opt_out env) st;
            st = st\<lparr>sess := (sess st)\<lparr>askedReminder := False\<rparr>\<rparr>
        in Some (send st)
      else Some st)"

subsection \<open>The callbacks\<close>

text \<open>
  The callback of \<open>db.findAskedQueued\<close> in the handler: an error goes to \<open>next\<close>; exactly
  one row is answered as a reminder question about that row.
\<close>

definition findAskedQueued_cb :: "env \<Rightarrow> request \<Rightarrow> string \<Rightarrow> hstate \<Rightarrow> hstate" where
  "findAskedQueued_cb env req text st =
     (case findAskedQueued env (From req) of
        Inl err \<Rightarrow> next_err err st
      | Inr data \<Rightarrow>
          if length data = 1
          then (case handleReminderResponse env req text (Some (data ! 0)) st of
                  Some st' \<Rightarrow> st'
                | None \<Rightarrow> emit TypeError st)
          else st)"

text \<open>
  The callback of \<open>db.addQueued\<close>: after \<open>next(err)\<close> it goes on (there is no
  \<open>return\<close> in the \<open>if\<close>).
\<close>

definition addQueued_cb :: "env \<Rightarrow> queued \<Rightarrow> hstate \<Rightarrow> hstate" where
  "addQueued_cb env q st =
     (let st = (case addQueued env q of Some err \<Rightarrow> next_err err st | None \<Rightarrow> st);
          st = sms (queue_yes env) st;
          st = st\<lparr>sess := (sess st)\<lparr>askedQueued := False\<rparr>\<rparr>
      in send st)"

text \<open>The two branches of the callback of \<open>db.findCitation\<close>, and the callback.\<close>

definition citation_not_found :: "env \<Rightarrow> string \<Rightarrow> hstate \<Rightarrow> hstate" where
  "citation_not_found env text st =
     (let correctLengthCitation = (6 \<le> length text \<and> length text \<le> 25)
      in if correctLengthCitation then
           let st = sms not_found_1 st;
               st = sms (not_found_2 env) st
           in st\<lparr>sess := (sess st)\<lparr>askedQueued := True, citationId := Some text\<rparr>\<rparr>
         else sms format_error st)"

definition citation_found :: "env \<Rightarrow> caseRecord \<Rightarrow> hstate \<Rightarrow> hstate" where
  "citation_found env m st =
     (let st = sms (found_message env m) st
      in st\<lparr>sess := (sess st)\<lparr>match := Some m, askedReminder := True\<rparr>\<rparr>)"

definition findCitation_cb :: "env \<Rightarrow> string \<Rightarrow> hstate \<Rightarrow> hstate" where
  "findCitation_cb env text st =
     send (case findCitation env text of
             None \<Rightarrow> citation_not_found env text st
           | Some results \<Rightarrow>
               if length results = 0 \<or> length results > 1
               then citation_not_found env text st
               else citation_found env (results ! 0) st)"

subsection \<open>The handler\<close>

text \<open>
  The database answers after the synchronous body of the handler has returned. The
  body leaves the callbacks of the calls it made; they run in the order the database
  answers, each to its end.
\<close>

definition run_callbacks ::
  "answer_order \<Rightarrow> (dbcall \<times> (hstate \<Rightarrow> hstate)) list \<Rightarrow> hstate \<Rightarrow> hstate" where
  "run_callbacks ord pending st =
     fold (\<lambda>c st. case map_of pending c of Some cb \<Rightarrow> cb st | None \<Rightarrow> st)
          (calls_in_order ord) st"

text \<open>
  The end of a turn that arrived with the session \<open>s\<close>: the session of the sender is the
  one that went out with the reply, and \<open>s\<close> still when there was no reply.
\<close>

definition finish ::
  "answer_order \<Rightarrow> (dbcall \<times> (hstate \<Rightarrow> hstate)) list \<Rightarrow> session \<Rightarrow> hstate
     \<Rightarrow> session \<times> event list" where
  "finish ord pending s st =
     (let st = run_callbacks ord pending st
      in (case stored st of Some c \<Rightarrow> c | None \<Rightarrow> s, trace st))"

text \<open>
  The function given last to \<open>app.post('/sms', ...)\<close>: the session the request arrives
  with, and the session the sender is left with and the events of the turn. A TypeError
  raised in the body goes to the error-handling middleware, which replies.
\<close>

definition sms_handler :: "env \<Rightarrow> request \<Rightarrow> session \<Rightarrow> session \<times> event list" where
  "sms_handler env req s =
     (let text = toUpperCase (Body req);
          st = \<lparr>sess = s, twiml = [], trace = [], stored = None\<rparr>
      in case (if askedReminder s
               then map_option (\<lambda>st. (st, []))
                      (handleReminderResponse env req text (match s) st)
               else Some (emit (FindAskedQueued (From req)) st,
                          [(AskedQueuedCall, findAskedQueued_cb env req text)])) of
           None \<Rightarrow> (s, [TypeError, Send500])
         | Some (st, pending) \<Rightarrow>
             if askedQueued (sess st) \<and> affirmative text then
               let q = \<lparr>queued_citationId = citationId (sess st), queued_phone = From req\<rparr>;
                   st = emit (AddQueued q) st;
                   st = emit (FindCitation text) st
               in finish (answers env)
                    (pending @ [(AddQueuedCall, addQueued_cb env q),
                                (CitationCall, findCitation_cb env text)]) s st
             else if askedQueued (sess st) \<and> negative text then
               let st = sms (opt_out env) st;
                   st = st\<lparr>sess := (sess st)\<lparr>askedQueued := False\<rparr>\<rparr>
               in finish (answers env) pending s (send st)
             else
               finish (answers env)
                 (pending @ [(CitationCall, findCitation_cb env text)]) s
                 (emit (FindCitation text) st))"

section \<open>The route POST /sms\<close>

text \<open>
  \<open>questionAskedMiddleware\<close> is the function given first to \<open>app.post('/sms', ...)\<close>. It
  calls \<open>db.findAskedQueued\<close> with a callback of one parameter, \<open>data\<close>, which receives
  what the database passes first. As a JavaScript value that is \<open>null\<close>, an error object
  or an array of rows. The callback reads \<open>data.length\<close>: a TypeError on \<open>null\<close>,
  undefined on an error object (the test \<open>data.length == 1\<close> fails and nothing is done).
  On an array of one row it calls \<open>handleReminderResponse\<close>, a name declared inside the
  handler and not in scope here: a ReferenceError.
\<close>

datatype first_argument = Null | ErrorObject dberror | Rows "caseRecord list"

definition questionAsked_callback :: "first_argument \<Rightarrow> event list" where
  "questionAsked_callback data =
     (case data of
        Null \<Rightarrow> [TypeError]
      | ErrorObject err \<Rightarrow> []
      | Rows rows \<Rightarrow> if length rows = 1 then [ReferenceError] else [])"

text \<open>
  The middleware: its events, and whether it calls \<open>next()\<close>. Neither its body nor its
  callback does. The database passes the error first (\<open>null\<close> on success), as to the
  callbacks of the handler.
\<close>

definition questionAskedMiddleware :: "env \<Rightarrow> request \<Rightarrow> event list \<times> bool" where
  "questionAskedMiddleware env req =
     (FindAskedQueued (From req)
        # questionAsked_callback
            (case findAskedQueued env (From req) of
               Inl err \<Rightarrow> ErrorObject err
             | Inr data \<Rightarrow> Null),
      False)"

text \<open>
  The route as \<open>app.post('/sms', questionAskedMiddleware, function(req, res, next) ...)\<close>
  wires it: Express runs the handler when the middleware calls \<open>next()\<close>. Without a
  reply no cookie goes out and the session of the sender is as it was.
\<close>

definition post_sms :: "env \<Rightarrow> request \<Rightarrow> session \<Rightarrow> session \<times> event list" where
  "post_sms env req s =
     (case questionAskedMiddleware env req of
        (events, calls_next) \<Rightarrow>
          if calls_next
          then (case sms_handler env req s of (s', events') \<Rightarrow> (s', events @ events'))
          else (s, events))"

subsection \<open>Reading a turn\<close>





subsection \<open>Example data\<close>

text \<open>
  An environment whose stores are empty (moment answering for the date and the time of
  the case below), a sender, and cases.
\<close>

definition example_env :: env where
  "example_env = \<lparr>COURT_PUBLIC_URL = ''http://courts.example'', QUEUE_TTL_DAYS = ''14'',
     findAskedQueued = (\<lambda>p. Inr []), addQueued = (\<lambda>q. None),
     findCitation = (\<lambda>t. Some []), answers = QAC,
     moment_ddd_MMM_Do = (\<lambda>d. ''Mon, Mar 4th''), moment_h_mm_A = (\<lambda>s. ''2:30 PM'')\<rparr>"

definition message :: "string \<Rightarrow> request" where
  "message b = \<lparr>From = ''+15550100'', Body = b\<rparr>"

definition john :: caseRecord where
  "john = \<lparr>case_id = ''42'', defendant = ''john q public'',
     date = \<lparr>year = 2024, month = 3, day = 4\<rparr>, time = ''14:30'', room = ''101''\<rparr>"

definition jane :: caseRecord where
  "jane = \<lparr>case_id = ''77'', defendant = ''JANE ROE'',
     date = \<lparr>year = 2024, month = 5, day = 17\<rparr>, time = ''09:00:00'', room = ''3B''\<rparr>"

text \<open>A court with one case under the citation Z-9.\<close>

definition court_env :: env where
  "court_env = example_env\<lparr>findCitation := (\<lambda>t. if t = ''Z-9'' then Some [john] else Some [])\<rparr>"

text \<open>
  A store that holds one asked row for the sender, and a session with the reminder
  question pending.
\<close>

definition store_env :: env where
  "store_env = example_env\<lparr>findAskedQueued := (\<lambda>p. Inr [jane])\<rparr>"


section \<open>cleanupName is idempotent\<close>

lemmas char_defs = toUpperChar_def toLowerChar_def lower_letters_def upper_letters_def
  is_space_def is_word_def

lemma toUpperChar_idem: "toUpperChar (toUpperChar c) = toUpperChar c"
  by (simp add: char_defs)

lemma toLowerChar_idem: "toLowerChar (toLowerChar c) = toLowerChar c"
  by (simp add: char_defs)

lemma is_space_toLowerChar: "is_space (toLowerChar c) = is_space c"
  by (simp add: char_defs)

lemma is_space_toUpperChar: "is_space (toUpperChar c) = is_space c"
  by (simp add: char_defs)

lemma is_word_toUpperChar: "is_word c \<Longrightarrow> is_word (toUpperChar c)"
  by (auto simp add: char_defs)

lemma word_not_space: "is_word c \<Longrightarrow> \<not> is_space c"
  by (auto simp add: char_defs)

lemma capitalize_Cons: "capitalize (c # cs) = toUpperChar c # map toLowerChar cs"
  by (simp add: capitalize_def toUpperCase_def toLowerCase_def)

text \<open>The replacement keeps white space where it is.\<close>

lemma spaces_replace_words: "map is_space (replace_words capitalize s) = map is_space s"
proof (induction capitalize s rule: replace_words.induct)
  case 1
  show ?case by simp
next
  case (2 c cs)
  show ?case
  proof (cases "is_word c")
    case True
    have "map is_space (takeWhile non_space cs) @ map is_space (dropWhile non_space cs)
            = map is_space cs"
      by (simp flip: map_append)
    with True 2 show ?thesis
      by (simp add: capitalize_Cons is_space_toUpperChar is_space_toLowerChar o_def)
  next
    case False
    with 2 show ?thesis by simp
  qed
qed

lemma replace_words_starts_space:
  "s = [] \<or> is_space (hd s) \<Longrightarrow> replace_words f s = [] \<or> is_space (hd (replace_words f s))"
  by (cases s) (auto dest: word_not_space)

lemma takeWhile_token:
  assumes "\<forall>x\<in>set xs. non_space x" and "ys = [] \<or> is_space (hd ys)"
  shows "takeWhile non_space (xs @ ys) = xs" and "dropWhile non_space (xs @ ys) = ys"
proof -
  from assms(2) have "takeWhile non_space ys = []" and "dropWhile non_space ys = ys"
    by (cases ys; simp add: non_space_def)+
  with assms(1) show "takeWhile non_space (xs @ ys) = xs" and "dropWhile non_space (xs @ ys) = ys"
    by simp_all
qed

lemma rest_starts_space: "dropWhile non_space cs = [] \<or> is_space (hd (dropWhile non_space cs))"
  using hd_dropWhile [of non_space cs] by (auto simp: non_space_def)

lemma token_lower_non_space: "\<forall>x\<in>set (map toLowerChar (takeWhile non_space cs)). non_space x"
  by (auto simp: non_space_def is_space_toLowerChar dest: set_takeWhileD)

lemma replace_words_idem:
  "replace_words capitalize (replace_words capitalize s) = replace_words capitalize s"
proof (induction capitalize s rule: replace_words.induct)
  case 1
  show ?case by simp
next
  case (2 c cs)
  show ?case
  proof (cases "is_word c")
    case True
    let ?tok = "map toLowerChar (takeWhile non_space cs)"
    let ?rest = "replace_words capitalize (dropWhile non_space cs)"
    have rest: "?rest = [] \<or> is_space (hd ?rest)"
      by (rule replace_words_starts_space) (rule rest_starts_space)
    have tw: "takeWhile non_space (?tok @ ?rest) = ?tok"
      and dw: "dropWhile non_space (?tok @ ?rest) = ?rest"
      using takeWhile_token [OF token_lower_non_space rest] by simp_all
    have "replace_words capitalize (toUpperChar c # ?tok @ ?rest)
        = capitalize (toUpperChar c # ?tok) @ replace_words capitalize ?rest"
      using True by (simp add: is_word_toUpperChar tw dw)
    also have "\<dots> = toUpperChar c # ?tok @ ?rest"
      using True 2 by (simp add: capitalize_Cons toUpperChar_idem toLowerChar_idem o_def)
    finally show ?thesis
      using True by (simp add: capitalize_Cons)
  next
    case False
    with 2 show ?thesis by simp
  qed
qed

lemma dropWhile_unchanged: "xs = [] \<or> \<not> P (hd xs) \<Longrightarrow> dropWhile P xs = xs"
  by (cases xs) auto

lemma trim_trimmed: "trimmed s \<Longrightarrow> trim s = s"
proof (cases s)
  case Nil
  then show ?thesis by (simp add: trim_def)
next
  case (Cons c cs)
  assume "trimmed s"
  with Cons have h: "\<not> is_space c" and l: "\<not> is_space (last s)"
    by (auto simp: trimmed_def)
  from h Cons have "dropWhile is_space s = s" by simp
  moreover have "dropWhile is_space (rev s) = rev s"
    by (rule dropWhile_unchanged) (simp add: hd_rev l)
  ultimately show ?thesis by (simp add: trim_def)
qed

lemma trimmed_trim: "trimmed (trim s)"
proof -
  let ?y = "dropWhile is_space s"
  let ?z = "dropWhile is_space (rev ?y)"
  show ?thesis
  proof (cases "?z = []")
    case True
    then show ?thesis by (simp add: trim_def trimmed_def)
  next
    case False
    then have z: "\<not> is_space (hd ?z)" by (rule hd_dropWhile)
    have y: "?y \<noteq> []"
    proof
      assume e: "?y = []"
      have "?z = []" unfolding e by simp
      with False show False by simp
    qed
    then have hy: "\<not> is_space (hd ?y)" by (rule hd_dropWhile)
    have "last (rev ?z) = hd ?z" using False by (simp add: last_rev)
    moreover have "hd (rev ?z) = hd ?y"
    proof -
      obtain us where "rev ?y = us @ ?z"
        by (metis takeWhile_dropWhile_id)
      then have "?y = rev ?z @ rev us"
        by (metis rev_append rev_rev_ident)
      with False show ?thesis by (metis hd_append2 rev_is_Nil_conv)
    qed
    ultimately show ?thesis using z hy False by (simp add: trim_def trimmed_def)
  qed
qed

lemma trimmed_replace_words: "trimmed s \<Longrightarrow> trimmed (replace_words capitalize s)"
proof -
  assume t: "trimmed s"
  let ?r = "replace_words capitalize s"
  have m: "map is_space ?r = map is_space s" by (rule spaces_replace_words)
  then have len: "length ?r = length s" by (metis length_map)
  show ?thesis
  proof (cases "s = []")
    case True
    then show ?thesis by (simp add: trimmed_def)
  next
    case False
    with len have r: "?r \<noteq> []" by auto
    have "is_space (hd ?r) = is_space (hd s)"
      using m r False by (metis hd_map)
    moreover have "is_space (last ?r) = is_space (last s)"
      using m r False by (metis last_map)
    ultimately show ?thesis using t False by (simp add: trimmed_def)
  qed
qed

text \<open>
  C10. The normalization of a defendant's name is idempotent: for every string \<open>s\<close>,
  \<open>cleanupName (cleanupName s) = cleanupName s\<close>.
\<close>

theorem cleanupName_idempotent: "cleanupName (cleanupName s) = cleanupName s"
  by (simp add: cleanupName_def trim_trimmed trimmed_replace_words trimmed_trim replace_words_idem)

section \<open>An ambiguous citation is a missing citation\<close>

text \<open>The lookup is the only place where the handler reads \<open>findCitation\<close>.\<close>

lemma handleReminderResponse_without_lookup:
  "handleReminderResponse (env\<lparr>findCitation := f\<rparr>) = handleReminderResponse env"
  by (simp add: fun_eq_iff handleReminderResponse_def opt_out_def reminder_yes_2_def
        split: option.split)

lemma env_without_lookup:
  "findAskedQueued_cb (env\<lparr>findCitation := f\<rparr>) = findAskedQueued_cb env"
  "addQueued_cb (env\<lparr>findCitation := f\<rparr>) = addQueued_cb env"
  "opt_out (env\<lparr>findCitation := f\<rparr>) = opt_out env"
  by (simp_all add: fun_eq_iff findAskedQueued_cb_def addQueued_cb_def
        handleReminderResponse_without_lookup opt_out_def queue_yes_def split: sum.split)

lemma found_message_without_lookup:
  "found_message (env\<lparr>findCitation := f\<rparr>) = found_message env"
  by (simp add: fun_eq_iff found_message_def)

lemma findCitation_cb_many:
  assumes "findCitation env text = Some rs" and "1 < length rs"
  shows "findCitation_cb (env\<lparr>findCitation := (findCitation env)(text := Some [])\<rparr>) text
           = findCitation_cb env text"
  using assms
  by (simp add: fun_eq_iff findCitation_cb_def citation_not_found_def not_found_2_def)

text \<open>
  C7. When the citation store returns more than one exact match, the turn is the turn
  the same message gets when the store returns none: the same events, replies
  included, and the same session.
\<close>

theorem ambiguous_same_as_none:
  assumes "findCitation env (toUpperCase (Body req)) = Some rs" and "1 < length rs"
  shows "sms_handler env req s
           = sms_handler (env\<lparr>findCitation := (findCitation env)(toUpperCase (Body req) := Some [])\<rparr>)
               req s"
  by (simp add: sms_handler_def Let_def env_without_lookup handleReminderResponse_without_lookup
        findCitation_cb_many [OF assms]
        split: option.split)

theorem ambiguous_same_as_none_witness:
  "findCitation (example_env\<lparr>findCitation := (\<lambda>t. Some [john, jane])\<rparr>)
      (toUpperCase (Body (message ''Z-9''))) = Some [john, jane]
   \<and> 1 < length [john, jane]
   \<and> sms_handler (example_env\<lparr>findCitation := (\<lambda>t. Some [john, jane])\<rparr>) (message ''Z-9'')
        fresh_session
      = sms_handler
          (example_env\<lparr>findCitation := (\<lambda>t. Some [john, jane])(toUpperCase (Body (message ''Z-9'')) := Some [])\<rparr>)
          (message ''Z-9'') fresh_session"
proof -
  have e: "findCitation (example_env\<lparr>findCitation := (\<lambda>t. Some [john, jane])\<rparr>)
      (toUpperCase (Body (message ''Z-9''))) = Some [john, jane]"
    by simp
  have l: "1 < length [john, jane]" by simp
  show ?thesis
    using ambiguous_same_as_none [OF e l, of fresh_session] by simp
qed

section \<open>The route never reaches the handler\<close>

lemma post_sms_eq:
  "post_sms env req s =
     (s, FindAskedQueued (From req)
           # questionAsked_callback
               (case findAskedQueued env (From req) of
                  Inl err \<Rightarrow> ErrorObject err
                | Inr data \<Rightarrow> Null))"
  by (simp add: post_sms_def questionAskedMiddleware_def)





text \<open>
  C1 fails on the route. The message ABC123 (six characters, no case under that
  citation) from a sender with a fresh session: the middleware asks the store, its
  callback raises the TypeError of \<open>data.length\<close>, \<open>next()\<close> is not called, the handler
  does not run. No offer is sent and \<open>askedQueued\<close> is not set.
\<close>

theorem offer_not_sent:
  "post_sms example_env (message ''ABC123'') fresh_session
     = (fresh_session, [FindAskedQueued ''+15550100'', TypeError])"
  by (simp add: post_sms_eq questionAsked_callback_def example_env_def message_def)

text \<open>
  C5 fails on the route. The message 123 (too short, no case) from a sender with a fresh
  session: the handler does not run and the format-error message is not sent.
\<close>

theorem format_error_not_sent:
  "post_sms example_env (message ''123'') fresh_session
     = (fresh_session, [FindAskedQueued ''+15550100'', TypeError])"
  by (simp add: post_sms_eq questionAsked_callback_def example_env_def message_def)

text \<open>
  C6 fails on the route. The message Z-9, for which the court holds exactly one case,
  from a sender with a fresh session: the citation store is not asked, no summary is
  sent, \<open>askedReminder\<close> is not set and no case is stored.
\<close>

theorem summary_not_sent:
  "post_sms court_env (message ''Z-9'') fresh_session
     = (fresh_session, [FindAskedQueued ''+15550100'', TypeError])"
  by (simp add: post_sms_eq questionAsked_callback_def court_env_def example_env_def message_def)



text \<open>
  C4 fails on the route. The store holds exactly one asked row for a sender with a
  fresh session, who answers YES: the middleware asks the store first, but its callback
  names the error \<open>data\<close> and fails on \<open>data.length\<close>; the row is not looked at, the
  question is not answered (nothing is queued, no reminder is created, no reply is
  sent), and there is no fall back to the lookup.
\<close>

theorem store_row_not_answered:
  "findAskedQueued store_env (From (message ''YES'')) = Inr [jane]
   \<and> post_sms store_env (message ''YES'') fresh_session
     = (fresh_session, [FindAskedQueued ''+15550100'', TypeError])"
  by (simp add: post_sms_eq questionAsked_callback_def store_env_def example_env_def message_def)

end
